theory Spec2Isabelle
  imports Complex_Main
begin

section \<open>Errors\<close>

text \<open>
  Every exception the Python source (or a library call it makes) can raise is a value.
  A stateful call returns its outcome together with the state it leaves behind, so that
  what was done before a raise stays visible.
\<close>

datatype error =
    AssertionError string
  | NotImplementedError
  | IndexError
  | ValueError
  | KeyError

section \<open>Arrays of fixed shape\<close>

text \<open>
  The numpy arrays the camera code handles have fixed shapes: 3-vectors, 3x3 rotation
  matrices and 4x4 homogeneous transforms, all of dtype float64. They are modelled as
  datatypes of that shape over the reals (exact arithmetic, no rounding).
  A matrix is given by its rows.
\<close>

datatype vec3 = Vec3 (v0: real) (v1: real) (v2: real)

datatype mat3 = Mat3 (r0: vec3) (r1: vec3) (r2: vec3)

datatype vec4 = Vec4 (w0: real) (w1: real) (w2: real) (w3: real)

datatype mat4 = Mat4 (h0: vec4) (h1: vec4) (h2: vec4) (h3: vec4)

subsection \<open>numpy\<close>

text \<open>\<^verbatim>\<open>A.T\<close> on a 3x3 array.\<close>

definition T3 :: "mat3 \<Rightarrow> mat3" where
  "T3 A = Mat3 (Vec3 (v0 (r0 A)) (v0 (r1 A)) (v0 (r2 A)))
               (Vec3 (v1 (r0 A)) (v1 (r1 A)) (v1 (r2 A)))
               (Vec3 (v2 (r0 A)) (v2 (r1 A)) (v2 (r2 A)))"

text \<open>The inner product of two 3-vectors, the entry of a matrix product.\<close>

definition inner3 :: "vec3 \<Rightarrow> vec3 \<Rightarrow> real" where
  "inner3 a b = v0 a * v0 b + v1 a * v1 b + v2 a * v2 b"

text \<open>\<^verbatim>\<open>A.dot(B)\<close> on two 3x3 arrays: the matrix product, row of A times column of B.\<close>

definition dot3 :: "mat3 \<Rightarrow> mat3 \<Rightarrow> mat3" where
  "dot3 A B =
     (let Bt = T3 B in
      Mat3 (Vec3 (inner3 (r0 A) (r0 Bt)) (inner3 (r0 A) (r1 Bt)) (inner3 (r0 A) (r2 Bt)))
           (Vec3 (inner3 (r1 A) (r0 Bt)) (inner3 (r1 A) (r1 Bt)) (inner3 (r1 A) (r2 Bt)))
           (Vec3 (inner3 (r2 A) (r0 Bt)) (inner3 (r2 A) (r1 Bt)) (inner3 (r2 A) (r2 Bt))))"

text \<open>\<^verbatim>\<open>np.linalg.norm\<close> of a 3-vector: the Euclidean norm.\<close>

definition linalg_norm :: "vec3 \<Rightarrow> real" where
  "linalg_norm a = sqrt (inner3 a a)"

text \<open>\<^verbatim>\<open>np.deg2rad\<close>.\<close>

definition deg2rad :: "real \<Rightarrow> real" where
  "deg2rad x = x * (pi / 180)"

text \<open>The slice \<^verbatim>\<open>A[:3, 3]\<close> of a 4x4 array: the translation column.\<close>

definition slice_3_3 :: "mat4 \<Rightarrow> vec3" where
  "slice_3_3 A = Vec3 (w3 (h0 A)) (w3 (h1 A)) (w3 (h2 A))"

text \<open>The slice \<^verbatim>\<open>A[:3, :3]\<close> of a 4x4 array: the rotation block.\<close>

definition slice_3_33 :: "mat4 \<Rightarrow> mat3" where
  "slice_3_33 A = Mat3 (Vec3 (w0 (h0 A)) (w1 (h0 A)) (w2 (h0 A)))
                       (Vec3 (w0 (h1 A)) (w1 (h1 A)) (w2 (h1 A)))
                       (Vec3 (w0 (h2 A)) (w1 (h2 A)) (w2 (h2 A)))"

text \<open>\<^verbatim>\<open>np.arange(a, b)\<close> on integers: a, a+1, ..., b-1, empty when b <= a.\<close>

definition arange :: "int \<Rightarrow> int \<Rightarrow> int list" where
  "arange a b = [a..b - 1]"

text \<open>
  \<^verbatim>\<open>np.hstack\<close> of two column vectors (each made by \<^verbatim>\<open>[:, np.newaxis]\<close>): the rows
  are the pairs of entries. The two columns built by the source always have the same
  length (see \<open>arange_columns_same_length\<close> below).
\<close>

definition hstack_columns :: "int list \<Rightarrow> int list \<Rightarrow> (int \<times> int) list" where
  "hstack_columns xs ys = zip xs ys"

text \<open>
  The conversion \<^verbatim>\<open>astype(int)\<close> of a float to an integer drops the fractional part
  (it truncates toward zero; it does not round to nearest). From numpy 1.20 on,
  \<^verbatim>\<open>linspace\<close> with an integer dtype rounds toward minus infinity instead; the two
  agree on the samples of a non-empty pose sequence, which are never negative.
\<close>

definition astype_int :: "real \<Rightarrow> int" where
  "astype_int x = (if 0 \<le> x then \<lfloor>x\<rfloor> else \<lceil>x\<rceil>)"

text \<open>
  \<^verbatim>\<open>np.linspace(start, stop, num, dtype=np.int)\<close> with the default \<^verbatim>\<open>endpoint=True\<close>:
  a negative \<open>num\<close> is a \<^verbatim>\<open>ValueError\<close>; otherwise the samples \<open>i * step + start\<close> for
  \<open>i = 0, ..., num - 1\<close> with \<open>step = (stop - start) / (num - 1)\<close> are computed (here
  in exact arithmetic), the last one is overwritten by \<open>stop\<close> when \<open>num > 1\<close>, and the
  array is converted with \<^verbatim>\<open>astype\<close>. (\<^verbatim>\<open>np.int\<close> is the builtin \<^verbatim>\<open>int\<close> in the numpy
  versions that still have the alias.)
\<close>

definition linspace_int :: "real \<Rightarrow> real \<Rightarrow> int \<Rightarrow> error + int list" where
  "linspace_int start stop num =
     (if num < 0 then Inl ValueError
      else
        let divisor = num - 1;
            delta = stop - start;
            y = map real_of_int (arange 0 num);
            y = (if divisor > 0 then
                   (let step = delta / real_of_int divisor in
                    if step = 0 then map (\<lambda>v. v / real_of_int divisor * delta) y
                    else map (\<lambda>v. v * step) y)
                 else map (\<lambda>v. v * delta) y);
            y = map (\<lambda>v. v + start) y;
            y = (if num > 1 then y[nat num - 1 := stop] else y)
        in Inr (map astype_int y))"

text \<open>
  Indexing a sequence with an integer, \<^verbatim>\<open>xs[i]\<close>: a negative index counts from the
  end, an index out of range raises \<^verbatim>\<open>IndexError\<close>.
\<close>

definition getitem :: "'a list \<Rightarrow> int \<Rightarrow> error + 'a" where
  "getitem xs i =
     (if 0 \<le> i \<and> i < int (length xs) then Inr (xs ! nat i)
      else if i < 0 \<and> - int (length xs) \<le> i then Inr (xs ! nat (int (length xs) + i))
      else Inl IndexError)"

subsection \<open>pytransform3d\<close>

text \<open>
  Modelled from the spec: \<^verbatim>\<open>pytransform3d.rotations.active_matrix_from_angle(basis, angle)\<close>
  is a library function, not part of the repository's source. The spec describes it as
  the active rotation matrix about the named principal axis (0 = X, 1 = Y, 2 = Z) by the
  right-hand rule; any other basis is a \<^verbatim>\<open>ValueError\<close>.
\<close>

definition active_matrix_from_angle :: "int \<Rightarrow> real \<Rightarrow> error + mat3" where
  "active_matrix_from_angle basis angle =
     (let c = cos angle; s = sin angle in
      if basis = 0 then Inr (Mat3 (Vec3 1 0 0) (Vec3 0 c (- s)) (Vec3 0 s c))
      else if basis = 1 then Inr (Mat3 (Vec3 c 0 s) (Vec3 0 1 0) (Vec3 (- s) 0 c))
      else if basis = 2 then Inr (Mat3 (Vec3 c (- s) 0) (Vec3 s c 0) (Vec3 0 0 1))
      else Inl ValueError)"

text \<open>
  Modelled from the spec: \<^verbatim>\<open>pytransform3d.transformations.transform_from(R, p)\<close> is a
  library function, not part of the repository's source. The spec describes it as
  assembling the rotation R and the translation p into a 4x4 homogeneous matrix with
  bottom row [0, 0, 0, 1].
\<close>

definition transform_from :: "mat3 \<Rightarrow> vec3 \<Rightarrow> mat4" where
  "transform_from R p =
     Mat4 (Vec4 (v0 (r0 R)) (v1 (r0 R)) (v2 (r0 R)) (v0 p))
          (Vec4 (v0 (r1 R)) (v1 (r1 R)) (v2 (r1 R)) (v1 p))
          (Vec4 (v0 (r2 R)) (v1 (r2 R)) (v2 (r2 R)) (v2 p))
          (Vec4 0 0 0 1)"

subsection \<open>Open3D geometry\<close>

text \<open>
  Open3D geometry objects are opaque to the source: it creates them, changes them in
  place and hands them to the visualizer. A triangle mesh is modelled by where it comes
  from (the coordinate-frame mesh of a given size, or a file read) and the operations
  applied to it since, in order; a line set by its points, lines and colours.
\<close>

datatype mesh_origin = CoordinateFrame real | ReadFile string

datatype mesh_op = ScaleVertices vec3 | Transform mat4 | SetVertexColors vec3

datatype triangle_mesh = TriangleMesh (origin: mesh_origin) (ops: "mesh_op list")

datatype geometry =
    MeshGeometry triangle_mesh
  | LineSet (ls_points: "vec3 list") (ls_lines: "(int \<times> int) list") (ls_colors: "vec3 list")

text \<open>\<^verbatim>\<open>o3d.geometry.TriangleMesh.create_coordinate_frame(size=s)\<close>.\<close>

definition create_coordinate_frame :: "real \<Rightarrow> triangle_mesh" where
  "create_coordinate_frame sz = TriangleMesh (CoordinateFrame sz) []"

text \<open>\<^verbatim>\<open>o3d.io.read_triangle_mesh(filename)\<close>.\<close>

definition read_triangle_mesh :: "string \<Rightarrow> triangle_mesh" where
  "read_triangle_mesh f = TriangleMesh (ReadFile f) []"

text \<open>An operation on a mesh, in place: \<^verbatim>\<open>mesh.transform(A2B)\<close> and the like.\<close>

definition apply_op :: "triangle_mesh \<Rightarrow> mesh_op \<Rightarrow> triangle_mesh" where
  "apply_op m operation = TriangleMesh (origin m) (ops m @ [operation])"

section \<open>The state\<close>

text \<open>
  What the module's functions read and change: the visualizer of the figure (the
  geometries added to its scene, in order, and the extrinsic matrix of its pinhole
  camera, world to camera), the lines printed and the warnings issued.
\<close>

record world =
  geometries :: "geometry list"
  extrinsic :: mat4
  stdout :: "string list"
  warnings :: "string list"

section \<open>Figure\<close>

definition add_geometry :: "world \<Rightarrow> geometry \<Rightarrow> world" where
  "add_geometry w g = w\<lparr>geometries := geometries w @ [g]\<rparr>"

text \<open>The constant matrix of \<^verbatim>\<open>view_init\<close>: world to camera at azimuth 0, elevation 0.\<close>

definition R_azim_elev_0_world2camera :: mat3 where
  "R_azim_elev_0_world2camera = Mat3 (Vec3 0 1 0) (Vec3 0 0 (- 1)) (Vec3 (- 1) 0 0)"

text \<open>
  \<^verbatim>\<open>Figure.view_init(azim, elev)\<close>: reads the camera parameters, computes the new
  extrinsic and writes it back. Both angles are in degrees; a caller that leaves them
  out gets -60 and 30.
\<close>

definition view_init :: "world \<Rightarrow> real \<Rightarrow> real \<Rightarrow> (error + unit) \<times> world" where
  "view_init w azim elev =
     (let distance = linalg_norm (slice_3_3 (extrinsic w));
          R_azim_elev_0_camera2world = T3 R_azim_elev_0_world2camera
      in case active_matrix_from_angle 2 (deg2rad azim) of
           Inl e \<Rightarrow> (Inl e, w)
         | Inr R_azim \<Rightarrow>
             (case active_matrix_from_angle 1 (deg2rad (- elev)) of
                Inl e \<Rightarrow> (Inl e, w)
              | Inr R_elev \<Rightarrow>
                  (let R_elev_azim_camera2world =
                         dot3 (dot3 R_azim R_elev) R_azim_elev_0_camera2world
                   in (Inr (),
                       w\<lparr>extrinsic :=
                           transform_from (T3 R_elev_azim_camera2world)
                             (Vec3 0 0 distance)\<rparr>))))"

section \<open>Frame\<close>

record frame =
  frame_A2B :: mat4
  frame_label :: "string option"
  frame_s :: real

text \<open>\<^verbatim>\<open>Frame.__init__\<close>: a label is stored, with a warning that it will not be drawn.\<close>

definition Frame_init :: "mat4 \<Rightarrow> string option \<Rightarrow> real \<Rightarrow> world \<Rightarrow> frame \<times> world" where
  "Frame_init A2B label s w =
     (\<lparr>frame_A2B = A2B, frame_label = label, frame_s = s\<rparr>,
      (if label \<noteq> None
       then w\<lparr>warnings := warnings w @
              [''This viewer does not support text. Frame label will be ignored.'']\<rparr>
       else w))"

text \<open>
  \<^verbatim>\<open>Frame.set_data\<close> raises at once; the frame and the state are as they were.
\<close>

definition Frame_set_data ::
  "frame \<Rightarrow> mat4 \<Rightarrow> string option \<Rightarrow> world \<Rightarrow> (error + unit) \<times> frame \<times> world" where
  "Frame_set_data self A2B label w = (Inl NotImplementedError, self, w)"

definition add_frame :: "frame \<Rightarrow> world \<Rightarrow> world" where
  "add_frame self w =
     (let fr = create_coordinate_frame (frame_s self);
          fr = apply_op fr (Transform (frame_A2B self))
      in add_geometry w (MeshGeometry fr))"

section \<open>Trajectory\<close>

record trajectory =
  traj_H :: "mat4 list"
  traj_show_direction :: bool
  traj_n_frames :: int
  traj_s :: real
  traj_c :: vec3

definition Trajectory_init ::
  "mat4 list \<Rightarrow> bool \<Rightarrow> int \<Rightarrow> real \<Rightarrow> vec3 \<Rightarrow> trajectory" where
  "Trajectory_init H show_direction n_frames s c =
     \<lparr>traj_H = H, traj_show_direction = show_direction, traj_n_frames = n_frames,
      traj_s = s, traj_c = c\<rparr>"

text \<open>
  \<^verbatim>\<open>Trajectory.set_data\<close> raises at once; the trajectory and the state are as they
  were.
\<close>

definition Trajectory_set_data ::
  "trajectory \<Rightarrow> mat4 list \<Rightarrow> string option \<Rightarrow> world \<Rightarrow>
     (error + unit) \<times> trajectory \<times> world" where
  "Trajectory_set_data self H label w = (Inl NotImplementedError, self, w)"

text \<open>The first half of \<^verbatim>\<open>add_trajectory\<close>: the line set through the positions.\<close>

definition trajectory_line_set :: "trajectory \<Rightarrow> geometry" where
  "trajectory_line_set self =
     (let points = map slice_3_3 (traj_H self);
          lines = hstack_columns (arange 0 (int (length points) - 1))
                                 (arange 1 (int (length points)));
          colors = map (\<lambda>_. traj_c self) lines
      in LineSet points lines colors)"

text \<open>The key frames of the trajectory: \<^verbatim>\<open>np.linspace(0, len(self.H) - 1, self.n_frames, dtype=np.int)\<close>.\<close>

definition key_frames_indices :: "trajectory \<Rightarrow> error + int list" where
  "key_frames_indices self =
     linspace_int 0 (real_of_int (int (length (traj_H self)) - 1)) (traj_n_frames self)"

text \<open>
  The loop over the key frames: one frame at each selected pose, added to the figure;
  the loop stops where an index is out of range.
\<close>

fun add_key_frames :: "trajectory \<Rightarrow> int list \<Rightarrow> world \<Rightarrow> (error + unit) \<times> world" where
  "add_key_frames self [] w = (Inr (), w)"
| "add_key_frames self (key_frame_idx # rest) w =
     (case getitem (traj_H self) key_frame_idx of
        Inl e \<Rightarrow> (Inl e, w)
      | Inr A \<Rightarrow>
          (let (fr, w) = Frame_init A None (traj_s self) w;
               w = add_frame fr w
           in add_key_frames self rest w))"

definition add_trajectory :: "trajectory \<Rightarrow> world \<Rightarrow> (error + unit) \<times> world" where
  "add_trajectory self w =
     (let w = add_geometry w (trajectory_line_set self) in
      case key_frames_indices self of
        Inl e \<Rightarrow> (Inl e, w)
      | Inr ks \<Rightarrow> add_key_frames self ks w)"

section \<open>Module functions\<close>

text \<open>A keyword argument left out takes its default.\<close>

fun default :: "'a \<Rightarrow> 'a option \<Rightarrow> 'a" where
  "default d None = d"
| "default d (Some x) = x"

text \<open>
  \<^verbatim>\<open>plot_basis(figure, R, p=np.zeros(3), s=1.0)\<close>.
\<close>

definition plot_basis :: "world \<Rightarrow> mat3 \<Rightarrow> vec3 option \<Rightarrow> real option \<Rightarrow> world" where
  "plot_basis w R p s =
     (let A2B = transform_from R (default (Vec3 0 0 0) p);
          (fr, w) = Frame_init A2B None (default 1 s) w
      in add_frame fr w)"

text \<open>
  \<^verbatim>\<open>plot_trajectory(figure, P, show_direction=True, n_frames=10, s=1.0, c=[0, 0, 0])\<close>.
  The conversion \<^verbatim>\<open>ptr.matrices_from_pos_quat\<close> of the positions and quaternions to
  matrices is a library function; it is a parameter of the model, and it may raise.
  The \<^verbatim>\<open>assert\<close> is the one of an interpreter run without \<^verbatim>\<open>-O\<close>.
\<close>

definition plot_trajectory ::
  "('p \<Rightarrow> error + mat4 list) \<Rightarrow> world \<Rightarrow> 'p \<Rightarrow> bool option \<Rightarrow> int option \<Rightarrow>
     real option \<Rightarrow> vec3 option \<Rightarrow> (error + unit) \<times> world" where
  "plot_trajectory matrices_from_pos_quat w P show_direction n_frames s c =
     (let show_direction = default True show_direction;
          n_frames = default 10 n_frames;
          s = default 1 s;
          c = default (Vec3 0 0 0) c
      in case matrices_from_pos_quat P of
           Inl e \<Rightarrow> (Inl e, w)
         | Inr H \<Rightarrow>
             if \<not> (\<not> show_direction) then (Inl (AssertionError ''not implemented yet''), w)
             else add_trajectory (Trajectory_init H show_direction n_frames s c) w)"

section \<open>Showing the geometry of a URDF transform manager\<close>

text \<open>
  The transform manager and the URDF shapes are pytransform3d's. Of a shape only what
  \<^verbatim>\<open>show\<close> reads is kept. Of the transform manager: its nodes, its lookup of the
  transform between two frames (it raises \<^verbatim>\<open>KeyError\<close> for an unknown frame), and the
  attributes \<^verbatim>\<open>collision_objects\<close> and \<^verbatim>\<open>visuals\<close>, which a plain transform
  manager does not have: \<open>None\<close> is the attribute missing (\<^verbatim>\<open>hasattr\<close> is false).
\<close>

record urdf_mesh =
  mesh_frame :: string
  mesh_path :: "string option"
  mesh_filename :: string
  mesh_scale :: vec3

datatype urdf_object = Box | Sphere | Cylinder | Mesh urdf_mesh

record transform_manager =
  tm_nodes :: "string list"
  tm_get_transform :: "string \<Rightarrow> string \<Rightarrow> error + mat4"
  tm_collision_objects :: "urdf_object list option"
  tm_visuals :: "urdf_object list option"

definition box_show ::
  "world \<Rightarrow> transform_manager \<Rightarrow> string \<Rightarrow> vec3 option \<Rightarrow> (error + unit) \<times> world" where
  "box_show w tm frame c = (Inl NotImplementedError, w)"

definition sphere_show ::
  "world \<Rightarrow> transform_manager \<Rightarrow> string \<Rightarrow> vec3 option \<Rightarrow> (error + unit) \<times> world" where
  "sphere_show w tm frame c = (Inl NotImplementedError, w)"

definition cylinder_show ::
  "world \<Rightarrow> transform_manager \<Rightarrow> string \<Rightarrow> vec3 option \<Rightarrow> (error + unit) \<times> world" where
  "cylinder_show w tm frame c = (Inl NotImplementedError, w)"

definition mesh_show ::
  "urdf_mesh \<Rightarrow> world \<Rightarrow> transform_manager \<Rightarrow> string \<Rightarrow> vec3 option \<Rightarrow>
     (error + unit) \<times> world" where
  "mesh_show self w tm frame c =
     (if mesh_path self = None
      then (Inr (), w\<lparr>stdout := stdout w @ [''No mesh path given'']\<rparr>)
      else
        case tm_get_transform tm (mesh_frame self) frame of
          Inl e \<Rightarrow> (Inl e, w)
        | Inr A2B \<Rightarrow>
            (let scale = mesh_scale self;
                 mesh = read_triangle_mesh (mesh_filename self);
                 mesh = apply_op mesh (ScaleVertices scale);
                 mesh = apply_op mesh (Transform A2B);
                 mesh = (case c of None \<Rightarrow> mesh
                         | Some col \<Rightarrow> apply_op mesh (SetVertexColors col))
             in (Inr (), add_geometry w (MeshGeometry mesh))))"

text \<open>\<^verbatim>\<open>obj.show(figure, tm, frame, c)\<close>: the method attached to the shape's class.\<close>

fun obj_show :: "urdf_object \<Rightarrow> world \<Rightarrow> transform_manager \<Rightarrow> string \<Rightarrow> vec3 option \<Rightarrow>
     (error + unit) \<times> world" where
  "obj_show Box w tm frame c = box_show w tm frame c"
| "obj_show Sphere w tm frame c = sphere_show w tm frame c"
| "obj_show Cylinder w tm frame c = cylinder_show w tm frame c"
| "obj_show (Mesh m) w tm frame c = mesh_show m w tm frame c"

text \<open>\<^verbatim>\<open>_add_objects\<close>.\<close>

fun u_add_objects :: "world \<Rightarrow> transform_manager \<Rightarrow> urdf_object list \<Rightarrow> string \<Rightarrow>
     vec3 option \<Rightarrow> (error + unit) \<times> world" where
  "u_add_objects w tm [] frame c = (Inr (), w)"
| "u_add_objects w tm (obj # objects) frame c =
     (case obj_show obj w tm frame c of
        (Inl e, w) \<Rightarrow> (Inl e, w)
      | (Inr _, w) \<Rightarrow> u_add_objects w tm objects frame c)"

text \<open>\<^verbatim>\<open>_add_frame\<close>.\<close>

definition u_add_frame :: "world \<Rightarrow> transform_manager \<Rightarrow> string \<Rightarrow> string \<Rightarrow>
     string list option \<Rightarrow> real \<Rightarrow> (error + unit) \<times> world" where
  "u_add_frame w tm from_frame to_frame whitelist s =
     (if whitelist \<noteq> None \<and> from_frame \<notin> set (the whitelist) then (Inr (), w)
      else
        case tm_get_transform tm from_frame to_frame of
          Inl e \<Rightarrow> (Inl e, w)
        | Inr A2B \<Rightarrow>
            (let (fr, w) = Frame_init A2B None s w in (Inr (), add_frame fr w)))"

text \<open>The loop \<^verbatim>\<open>for node in tm.nodes\<close> of \<^verbatim>\<open>show_urdf_transform_manager\<close>.\<close>

fun add_frames_of_nodes :: "world \<Rightarrow> transform_manager \<Rightarrow> string list \<Rightarrow> string \<Rightarrow>
     string list option \<Rightarrow> real \<Rightarrow> (error + unit) \<times> world" where
  "add_frames_of_nodes w tm [] frame whitelist s = (Inr (), w)"
| "add_frames_of_nodes w tm (node # nodes) frame whitelist s =
     (case u_add_frame w tm node frame whitelist s of
        (Inl e, w) \<Rightarrow> (Inl e, w)
      | (Inr _, w) \<Rightarrow> add_frames_of_nodes w tm nodes frame whitelist s)"

definition show_urdf_transform_manager ::
  "world \<Rightarrow> transform_manager \<Rightarrow> string \<Rightarrow> bool \<Rightarrow> bool \<Rightarrow> bool \<Rightarrow> string list option \<Rightarrow>
     real \<Rightarrow> vec3 option \<Rightarrow> (error + unit) \<times> world" where
  "show_urdf_transform_manager w tm frame collision_objects visuals frames whitelist s c =
     (case (if collision_objects
            then (case tm_collision_objects tm of
                    Some objects \<Rightarrow> u_add_objects w tm objects frame c
                  | None \<Rightarrow> (Inr (), w))
            else (Inr (), w)) of
        (Inl e, w) \<Rightarrow> (Inl e, w)
      | (Inr _, w) \<Rightarrow>
          (case (if visuals
                 then (case tm_visuals tm of
                         Some objects \<Rightarrow> u_add_objects w tm objects frame c
                       | None \<Rightarrow> (Inr (), w))
                 else (Inr (), w)) of
             (Inl e, w) \<Rightarrow> (Inl e, w)
           | (Inr _, w) \<Rightarrow>
               (if frames then add_frames_of_nodes w tm (tm_nodes tm) frame whitelist s
                else (Inr (), w))))"

section \<open>The operations as the specification words them\<close>

text \<open>
  The camera controller of the specification, step by step: the rotation about a
  principal axis, the product of rotations, the assembly of a rigid transform, and
  \<open>orbit\<close>, which takes the current extrinsic and the two angles in degrees.
\<close>

datatype axis = X | Y | Z

fun rotation_about_axis :: "axis \<Rightarrow> real \<Rightarrow> mat3" where
  "rotation_about_axis X a =
     Mat3 (Vec3 1 0 0) (Vec3 0 (cos a) (- sin a)) (Vec3 0 (sin a) (cos a))"
| "rotation_about_axis Y a =
     Mat3 (Vec3 (cos a) 0 (sin a)) (Vec3 0 1 0) (Vec3 (- sin a) 0 (cos a))"
| "rotation_about_axis Z a =
     Mat3 (Vec3 (cos a) (- sin a) 0) (Vec3 (sin a) (cos a) 0) (Vec3 0 0 1)"

definition compose_rotations :: "mat3 \<Rightarrow> mat3 \<Rightarrow> mat3" where
  "compose_rotations A B = dot3 A B"

definition compose :: "mat3 \<Rightarrow> vec3 \<Rightarrow> mat4" where
  "compose R p =
     Mat4 (Vec4 (v0 (r0 R)) (v1 (r0 R)) (v2 (r0 R)) (v0 p))
          (Vec4 (v0 (r1 R)) (v1 (r1 R)) (v2 (r1 R)) (v1 p))
          (Vec4 (v0 (r2 R)) (v1 (r2 R)) (v2 (r2 R)) (v2 p))
          (Vec4 0 0 0 1)"

definition radians :: "real \<Rightarrow> real" where
  "radians d = d * pi / 180"

definition translation :: "mat4 \<Rightarrow> vec3" where
  "translation E = Vec3 (w3 (h0 E)) (w3 (h1 E)) (w3 (h2 E))"

definition norm3 :: "vec3 \<Rightarrow> real" where
  "norm3 v = sqrt ((v0 v)\<^sup>2 + (v1 v)\<^sup>2 + (v2 v)\<^sup>2)"

text \<open>
  The fixed reference world-to-camera matrix at azimuth 0 and elevation 0: the camera
  looks along world -X, camera-right is world +Y, camera-up is world -Z.
\<close>

definition R0_world_to_camera :: mat3 where
  "R0_world_to_camera = Mat3 (Vec3 0 1 0) (Vec3 0 0 (- 1)) (Vec3 (- 1) 0 0)"

definition orbit :: "mat4 \<Rightarrow> real \<Rightarrow> real \<Rightarrow> mat4" where
  "orbit current_extrinsic azimuth elevation =
     (let distance = norm3 (translation current_extrinsic);
          R0_camera_to_world = T3 R0_world_to_camera;
          R_azimuth = rotation_about_axis Z (radians azimuth);
          R_elevation = rotation_about_axis Y (radians (- elevation));
          R_final_camera_to_world =
            compose_rotations (compose_rotations R_azimuth R_elevation) R0_camera_to_world
      in compose (T3 R_final_camera_to_world) (Vec3 0 0 distance))"


text \<open>
  The key-frame indices with each sample of the linear interpolation rounded down, and
  the single index 0 when only one key frame is asked for.
\<close>

definition floor_indices :: "nat \<Rightarrow> int \<Rightarrow> int list" where
  "floor_indices N n_frames =
     map (\<lambda>i. if n_frames = 1 then 0
              else \<lfloor>real_of_int i * (real N - 1) / real_of_int (n_frames - 1)\<rfloor>)
       (arange 0 n_frames)"

text \<open>
  The drawable of one key frame: the coordinate-frame mesh of the trajectory's scale,
  transformed by the pose at index k.
\<close>

definition key_frame_geometry :: "trajectory \<Rightarrow> int \<Rightarrow> geometry" where
  "key_frame_geometry self k =
     MeshGeometry
       (TriangleMesh (CoordinateFrame (traj_s self)) [Transform (traj_H self ! nat k)])"

text \<open>
  What the library's strict check of a rotation matrix asks for, in exact arithmetic:
  the rows are orthonormal.
\<close>

definition orthonormal3 :: "mat3 \<Rightarrow> bool" where
  "orthonormal3 R \<longleftrightarrow> dot3 R (T3 R) = Mat3 (Vec3 1 0 0) (Vec3 0 1 0) (Vec3 0 0 1)"

section \<open>Example data\<close>

text \<open>A pose with the identity rotation at the position (x, y, z).\<close>

definition pose_at :: "real \<Rightarrow> real \<Rightarrow> real \<Rightarrow> mat4" where
  "pose_at x y z = Mat4 (Vec4 1 0 0 x) (Vec4 0 1 0 y) (Vec4 0 0 1 z) (Vec4 0 0 0 1)"

text \<open>A fresh figure: an empty scene, the camera on the Z axis at distance 5.\<close>

definition world0 :: world where
  "world0 = \<lparr>geometries = [], extrinsic = pose_at 0 0 5, stdout = [], warnings = []\<rparr>"

text \<open>Three poses along the X axis, four key frames asked for.\<close>

definition trajectory3 :: trajectory where
  "trajectory3 =
     Trajectory_init [pose_at 0 0 0, pose_at 1 0 0, pose_at 2 0 0] False 4 (1/2) (Vec3 1 0 0)"

text \<open>A single pose, two key frames asked for.\<close>

definition trajectory1 :: trajectory where
  "trajectory1 = Trajectory_init [pose_at 1 2 3] False 2 1 (Vec3 0 0 0)"

text \<open>No pose at all, the default ten key frames.\<close>

definition trajectory0 :: trajectory where
  "trajectory0 = Trajectory_init [] False 10 1 (Vec3 0 0 0)"

text \<open>
  A plain transform manager, with neither the attribute \<^verbatim>\<open>collision_objects\<close> nor
  \<^verbatim>\<open>visuals\<close>, and a URDF mesh with no mesh path.
\<close>

definition tm_plain :: transform_manager where
  "tm_plain = \<lparr>tm_nodes = [''base''], tm_get_transform = (\<lambda>a b. Inr (pose_at 0 0 0)),
               tm_collision_objects = None, tm_visuals = None\<rparr>"

definition mesh_no_path :: urdf_mesh where
  "mesh_no_path = \<lparr>mesh_frame = ''link'', mesh_path = None, mesh_filename = ''part.stl'',
                   mesh_scale = Vec3 1 1 1\<rparr>"

section \<open>The camera: \<open>Figure.view_init\<close>\<close>

lemma slice_3_3_transform_from: "slice_3_3 (transform_from R p) = p"
  by (cases p) (simp add: slice_3_3_def transform_from_def)

lemma linalg_norm_nonneg: "0 \<le> linalg_norm a"
  by (simp add: linalg_norm_def inner3_def)

lemma linalg_norm_on_axis: "linalg_norm (Vec3 0 0 d) = \<bar>d\<bar>"
  by (simp add: linalg_norm_def inner3_def)

text \<open>
  The call never raises, changes nothing but the extrinsic, and the extrinsic it writes
  has these entries (a the azimuth and e the elevation in radians, d the distance of
  the camera read from the old extrinsic).
\<close>

lemma view_init_closed_form:
  "view_init w azim elev =
     (Inr (),
      w\<lparr>extrinsic :=
          (let a = deg2rad azim; e = deg2rad elev in
           Mat4 (Vec4 (- sin a) (cos a) 0 0)
                (Vec4 (cos a * sin e) (sin a * sin e) (- cos e) 0)
                (Vec4 (- (cos a * cos e)) (- (sin a * cos e)) (- sin e)
                   (linalg_norm (slice_3_3 (extrinsic w))))
                (Vec4 0 0 0 1))\<rparr>)"
  by (simp add: view_init_def active_matrix_from_angle_def deg2rad_def Let_def
      R_azim_elev_0_world2camera_def T3_def dot3_def inner3_def transform_from_def)

lemma orbit_entries:
  "orbit E azimuth elevation =
     (let a = radians azimuth; e = radians elevation in
      Mat4 (Vec4 (- sin a) (cos a) 0 0)
           (Vec4 (cos a * sin e) (sin a * sin e) (- cos e) 0)
           (Vec4 (- (cos a * cos e)) (- (sin a * cos e)) (- sin e) (norm3 (translation E)))
           (Vec4 0 0 0 1))"
  by (simp add: orbit_def radians_def Let_def compose_rotations_def compose_def
      R0_world_to_camera_def T3_def dot3_def inner3_def)

lemma deg2rad_radians: "deg2rad x = radians x"
  by (simp add: deg2rad_def radians_def)

lemma linalg_norm_norm3: "linalg_norm (slice_3_3 E) = norm3 (translation E)"
  by (simp add: linalg_norm_def slice_3_3_def norm3_def translation_def inner3_def
      power2_eq_square)

lemma view_init_returns: "fst (view_init w azim elev) = Inr ()"
  by (simp add: view_init_closed_form)

lemma view_init_translation:
  "slice_3_3 (extrinsic (snd (view_init w azim elev))) =
     Vec3 0 0 (linalg_norm (slice_3_3 (extrinsic w)))"
  by (simp add: view_init_closed_form slice_3_3_def Let_def)

lemma view_init_distance:
  "linalg_norm (slice_3_3 (extrinsic (snd (view_init w azim elev)))) =
     linalg_norm (slice_3_3 (extrinsic w))"
  by (simp add: view_init_translation linalg_norm_on_axis linalg_norm_nonneg)

lemma view_init_same_distance:
  "linalg_norm (slice_3_3 (extrinsic wa)) = linalg_norm (slice_3_3 (extrinsic wb)) \<Longrightarrow>
   extrinsic (snd (view_init wa azim elev)) = extrinsic (snd (view_init wb azim elev))"
  by (simp add: view_init_closed_form)

lemma view_init_only_extrinsic:
  "view_init w azim elev = (Inr (), w\<lparr>extrinsic := extrinsic (snd (view_init w azim elev))\<rparr>)"
  by (simp add: view_init_closed_form)

text \<open>
  A second call with the same angles finds the distance the first call wrote, and
  writes the same extrinsic again.
\<close>

lemma view_init_twice:
  "view_init (snd (view_init w azim elev)) azim elev = view_init w azim elev"
proof -
  define w' where "w' = snd (view_init w azim elev)"
  have "extrinsic (snd (view_init w' azim elev)) = extrinsic (snd (view_init w azim elev))"
    unfolding w'_def by (rule view_init_same_distance) (rule view_init_distance)
  then have e: "extrinsic (snd (view_init w' azim elev)) = extrinsic w'"
    by (simp add: w'_def)
  have "view_init w' azim elev =
          (Inr (), w'\<lparr>extrinsic := extrinsic (snd (view_init w' azim elev))\<rparr>)"
    by (rule view_init_only_extrinsic)
  also have "\<dots> = (Inr (), w'\<lparr>extrinsic := extrinsic w'\<rparr>)"
    by (simp only: e)
  also have "\<dots> = (Inr (), w')"
    by simp
  finally have "view_init w' azim elev = (Inr (), w')" .
  moreover have "view_init w azim elev = (Inr (), w')"
    unfolding w'_def using view_init_returns[of w azim elev]
    by (cases "view_init w azim elev") simp
  ultimately have "view_init w' azim elev = view_init w azim elev"
    by simp
  then show ?thesis
    unfolding w'_def .
qed

text \<open>The library's rotation by basis index is the rotation about the axis of that index.\<close>

lemma active_matrix_is_rotation_about_axis:
  "active_matrix_from_angle 0 a = Inr (rotation_about_axis X a)"
  "active_matrix_from_angle 1 a = Inr (rotation_about_axis Y a)"
  "active_matrix_from_angle 2 a = Inr (rotation_about_axis Z a)"
  by (simp_all add: active_matrix_from_angle_def Let_def)

lemma sin_cos_sq: "sin (x::real) * sin x + cos x * cos x = 1"
  using sin_cos_squared_add[of x] by (simp add: power2_eq_square)

lemma slice_3_33_transform_from: "slice_3_33 (transform_from R p) = R"
  by (cases R; cases "r0 R"; cases "r1 R"; cases "r2 R")
     (simp add: slice_3_33_def transform_from_def)

text \<open>
  The rotation block handed to \<open>transform_from\<close> is orthonormal, so a strict check of
  the rotation matrix by the library passes.
\<close>

lemma view_init_rotation_orthonormal:
  "orthonormal3 (slice_3_33 (extrinsic (snd (view_init w azim elev))))"
proof -
  define a where "a = deg2rad azim"
  define e where "e = deg2rad elev"
  have a: "sin a * sin a + cos a * cos a = 1" and e: "sin e * sin e + cos e * cos e = 1"
    by (rule sin_cos_sq)+
  have r1: "cos a * sin e * (cos a * sin e) + sin a * sin e * (sin a * sin e) + cos e * cos e = 1"
    using a e by algebra
  have r2: "cos a * cos e * (cos a * cos e) + sin a * cos e * (sin a * cos e) + sin e * sin e = 1"
    using a e by algebra
  have r12: "cos a * sin e * (cos a * cos e) + sin a * sin e * (sin a * cos e) = sin e * cos e"
    using a by algebra
  have r0: "sin a * sin a + cos a * cos a = 1" by (rule a)
  show ?thesis
    using r0 r1 r2 r12
    by (simp add: view_init_closed_form orthonormal3_def slice_3_33_def Let_def dot3_def
        T3_def inner3_def a_def[symmetric] e_def[symmetric] algebra_simps)
qed

text \<open>
  The camera at distance 5: at azimuth 0 and elevation 0 the rotation block is the
  reference matrix; at azimuth 90 the camera has turned a quarter about the world Z
  axis, at the same distance.
\<close>

lemma view_init_world0:
  "view_init world0 0 0 =
     (Inr (), world0\<lparr>extrinsic := Mat4 (Vec4 0 1 0 0) (Vec4 0 0 (- 1) 0) (Vec4 (- 1) 0 0 5)
                                     (Vec4 0 0 0 1)\<rparr>)"
proof -
  have "sqrt 25 = sqrt (5\<^sup>2)" by simp
  then have "sqrt 25 = 5" by (simp only: real_sqrt_abs)
  then show ?thesis
    by (simp add: view_init_closed_form deg2rad_def world0_def pose_at_def linalg_norm_def
        slice_3_3_def inner3_def)
qed

lemma view_init_world0_quarter_turn:
  "view_init world0 90 0 =
     (Inr (), world0\<lparr>extrinsic := Mat4 (Vec4 (- 1) 0 0 0) (Vec4 0 0 (- 1) 0) (Vec4 0 (- 1) 0 5)
                                     (Vec4 0 0 0 1)\<rparr>)"
proof -
  have "sqrt 25 = sqrt (5\<^sup>2)" by simp
  then have five: "sqrt 25 = 5" by (simp only: real_sqrt_abs)
  have d: "deg2rad 90 = pi / 2" "deg2rad 0 = 0"
    by (simp_all add: deg2rad_def)
  show ?thesis
    by (simp add: view_init_closed_form world0_def pose_at_def linalg_norm_def
        slice_3_3_def inner3_def d five)
qed

text \<open>
  Claim C1. For every state of the figure and all angles in degrees, \<open>view_init\<close>
  returns normally and writes back, as the new world-to-camera extrinsic, exactly what
  the specification's \<open>orbit\<close> computes from the extrinsic it read:
  \<open>compose (R, p)\<close> with \<open>R\<close> the transpose of
  \<open>R_azimuth \<cdot> R_elevation \<cdot> R0_camera_to_world\<close> and \<open>p = [0, 0, distance]\<close>, where
  the distance is the norm of the old translation, the azimuth turns about Z, the
  elevation turns about Y by the negated angle, and the reference matrix is the
  transpose of [[0,1,0],[0,0,-1],[-1,0,0]]. Nothing else of the state changes.
  (float64 is read as exact real arithmetic.)
\<close>

theorem view_init_is_orbit:
  "view_init w azim elev = (Inr (), w\<lparr>extrinsic := orbit (extrinsic w) azim elev\<rparr>)"
  by (simp add: view_init_closed_form orbit_entries deg2rad_radians linalg_norm_norm3)

text \<open>
  Claim C3. For every starting extrinsic and all angles, \<open>view_init\<close> returns normally
  and the norm of the translation of the extrinsic it writes back equals the norm of
  the translation of the extrinsic it read. (float64 is read as exact real arithmetic.)
\<close>

theorem view_init_preserves_distance:
  "fst (view_init w azim elev) = Inr () \<and>
   linalg_norm (slice_3_3 (extrinsic (snd (view_init w azim elev)))) =
     linalg_norm (slice_3_3 (extrinsic w))"
  by (simp add: view_init_returns view_init_distance)

text \<open>
  Claim C4. For every starting state, \<open>view_init\<close> with azimuth 0 and elevation 0
  applied to the state its first call left gives the same result as the first call:
  the same extrinsic, and no other part of the state remembers the first call.
  (float64 is read as exact real arithmetic.)
\<close>

theorem view_init_0_0_idempotent:
  "view_init (snd (view_init w 0 0)) 0 0 = view_init w 0 0 \<and>
   extrinsic (snd (view_init (snd (view_init w 0 0)) 0 0)) = extrinsic (snd (view_init w 0 0))"
  by (simp add: view_init_twice)

section \<open>The trajectory: the line set\<close>

lemma arange_columns_same_length:
  "length (arange 0 (int N - 1)) = length (arange 1 (int N))"
  by (simp add: arange_def)

lemma trajectory_lines:
  "hstack_columns (arange 0 (int N - 1)) (arange 1 (int N)) =
     map (\<lambda>i. (int i, int i + 1)) [0..<N - 1]"
  by (rule nth_equalityI) (auto simp: hstack_columns_def arange_def)

lemma trajectory_line_set_eq:
  "trajectory_line_set self =
     LineSet (map slice_3_3 (traj_H self))
       (map (\<lambda>i. (int i, int i + 1)) [0..<length (traj_H self) - 1])
       (replicate (length (traj_H self) - 1) (traj_c self))"
  by (simp add: trajectory_line_set_def Let_def trajectory_lines map_replicate_const)

section \<open>The trajectory: the loop over the key frames\<close>

lemma add_key_frames_step:
  "getitem (traj_H self) k = Inr A \<Longrightarrow>
   add_key_frames self (k # ks) w =
     add_key_frames self ks
       (w\<lparr>geometries := geometries w @
            [MeshGeometry (TriangleMesh (CoordinateFrame (traj_s self)) [Transform A])]\<rparr>)"
  by (simp add: Frame_init_def add_frame_def add_geometry_def create_coordinate_frame_def
      apply_op_def Let_def)

text \<open>Whatever the indices, the loop only appends geometries to the scene.\<close>

lemma add_key_frames_appends:
  "\<exists>gs. snd (add_key_frames self ks w) = w\<lparr>geometries := geometries w @ gs\<rparr>"
proof (induction ks arbitrary: w)
  case Nil
  have "snd (add_key_frames self [] w) = w\<lparr>geometries := geometries w @ []\<rparr>"
    by simp
  then show ?case by blast
next
  case (Cons k ks)
  show ?case
  proof (cases "getitem (traj_H self) k")
    case (Inl e)
    then have "snd (add_key_frames self (k # ks) w) = w\<lparr>geometries := geometries w @ []\<rparr>"
      by simp
    then show ?thesis by blast
  next
    case (Inr A)
    define g where
      "g = MeshGeometry (TriangleMesh (CoordinateFrame (traj_s self)) [Transform A])"
    define w' where "w' = w\<lparr>geometries := geometries w @ [g]\<rparr>"
    have step: "add_key_frames self (k # ks) w = add_key_frames self ks w'"
      using Inr by (simp only: add_key_frames_step w'_def g_def)
    from Cons.IH[of w'] obtain gs where
      "snd (add_key_frames self ks w') = w'\<lparr>geometries := geometries w' @ gs\<rparr>"
      by blast
    then have "snd (add_key_frames self (k # ks) w) =
                 w\<lparr>geometries := geometries w @ (g # gs)\<rparr>"
      unfolding step by (simp add: w'_def)
    then show ?thesis by blast
  qed
qed

text \<open>With every index in range the loop ends normally, one frame per index, in order.\<close>

lemma add_key_frames_in_range:
  "\<forall>k\<in>set ks. 0 \<le> k \<and> k < int (length (traj_H self)) \<Longrightarrow>
   add_key_frames self ks w =
     (Inr (), w\<lparr>geometries := geometries w @ map (key_frame_geometry self) ks\<rparr>)"
proof (induction ks arbitrary: w)
  case Nil
  then show ?case by simp
next
  case (Cons k ks)
  then have "0 \<le> k" and "k < int (length (traj_H self))"
    by simp_all
  then have g: "getitem (traj_H self) k = Inr (traj_H self ! nat k)"
    by (simp add: getitem_def)
  define w' where "w' = w\<lparr>geometries := geometries w @ [key_frame_geometry self k]\<rparr>"
  have step: "add_key_frames self (k # ks) w = add_key_frames self ks w'"
    using g by (simp only: add_key_frames_step w'_def key_frame_geometry_def)
  have "add_key_frames self ks w' =
          (Inr (), w'\<lparr>geometries := geometries w' @ map (key_frame_geometry self) ks\<rparr>)"
    using Cons by simp
  then show ?case
    unfolding step by (simp add: w'_def)
qed

lemma add_trajectory_first_geometry:
  "\<exists>gs. snd (add_trajectory self w) =
          w\<lparr>geometries := geometries w @ trajectory_line_set self # gs\<rparr>"
proof (cases "key_frames_indices self")
  case (Inl e)
  then have "snd (add_trajectory self w) =
               w\<lparr>geometries := geometries w @ trajectory_line_set self # []\<rparr>"
    by (simp add: add_trajectory_def add_geometry_def)
  then show ?thesis by blast
next
  case (Inr ks)
  define w' where "w' = add_geometry w (trajectory_line_set self)"
  obtain gs where "snd (add_key_frames self ks w') = w'\<lparr>geometries := geometries w' @ gs\<rparr>"
    using add_key_frames_appends by blast
  then have "snd (add_trajectory self w) =
               w\<lparr>geometries := geometries w @ trajectory_line_set self # gs\<rparr>"
    using Inr by (simp add: add_trajectory_def w'_def add_geometry_def)
  then show ?thesis by blast
qed

section \<open>The trajectory: the key-frame indices\<close>

lemma astype_int_nonneg: "0 \<le> x \<Longrightarrow> astype_int x = \<lfloor>x\<rfloor>"
  by (simp add: astype_int_def)

text \<open>
  From 0 to a stop that is not negative, with two samples or more: every sample is
  rounded down, and the overwritten endpoint is the value the interpolation has there.
\<close>

lemma linspace_int_from_0:
  assumes m: "0 \<le> m" and n: "2 \<le> n"
  shows "linspace_int 0 (real_of_int m) n =
           Inr (map (\<lambda>i. \<lfloor>real_of_int i * real_of_int m / real_of_int (n - 1)\<rfloor>) [0..n - 1])"
proof -
  define ys where
    "ys = map (\<lambda>i. real_of_int i * real_of_int m / real_of_int (n - 1)) [0..n - 1]"
  have scaled:
    "(if real_of_int m / real_of_int (n - 1) = 0
      then map (\<lambda>v. v / real_of_int (n - 1) * real_of_int m) (map real_of_int [0..n - 1])
      else map (\<lambda>v. v * (real_of_int m / real_of_int (n - 1))) (map real_of_int [0..n - 1]))
     = ys"
    by (simp add: ys_def)
  have "ys ! (nat n - 1) = real_of_int (n - 1) * real_of_int m / real_of_int (n - 1)"
    using n by (simp add: ys_def)
  then have "ys ! (nat n - 1) = real_of_int m"
    using n by simp
  then have endpoint: "ys[nat n - 1 := real_of_int m] = ys"
    by (metis list_update_id)
  have "\<forall>y\<in>set ys. 0 \<le> y"
    using m n by (auto simp: ys_def)
  then have "map astype_int ys = map floor ys"
    by (simp add: astype_int_nonneg)
  then have trunc: "map astype_int ys =
      map (\<lambda>i. \<lfloor>real_of_int i * real_of_int m / real_of_int (n - 1)\<rfloor>) [0..n - 1]"
    by (simp add: ys_def comp_def)
  have "linspace_int 0 (real_of_int m) n =
          Inr (map astype_int
            ((if real_of_int m / real_of_int (n - 1) = 0
              then map (\<lambda>v. v / real_of_int (n - 1) * real_of_int m)
                     (map real_of_int [0..n - 1])
              else map (\<lambda>v. v * (real_of_int m / real_of_int (n - 1)))
                     (map real_of_int [0..n - 1]))
             [nat n - 1 := real_of_int m]))"
    using n by (simp add: linspace_int_def arange_def Let_def comp_def)
  then show ?thesis
    by (simp only: scaled endpoint trunc)
qed

lemma linspace_int_single: "linspace_int 0 stop 1 = Inr [0]"
  by (simp add: linspace_int_def arange_def astype_int_def)

lemma linspace_int_none: "linspace_int 0 stop 0 = Inr []"
  by (simp add: linspace_int_def arange_def)

text \<open>Whatever the stop, the first of one sample or more is 0.\<close>

lemma linspace_int_head:
  assumes "1 \<le> n"
  shows "\<exists>rest. linspace_int 0 stop n = Inr (0 # rest)"
proof (cases "n = 1")
  case True
  then show ?thesis by (simp add: linspace_int_single)
next
  case False
  with assms have n: "2 \<le> n" by simp
  then have r: "[0..n - 1] = 0 # [1..n - 1]"
    by (simp add: upto_rec1[of 0 "n - 1"])
  have "nat n - Suc 0 = Suc (nat n - 2)"
    using n by arith
  then obtain k where k: "nat n - Suc 0 = Suc k" ..
  show ?thesis
    using n by (simp add: linspace_int_def arange_def Let_def r k astype_int_def)
qed

lemma floor_indices_single: "floor_indices N 1 = [0]"
  by (simp add: floor_indices_def arange_def)

lemma floor_indices_one_pose: "0 \<le> n \<Longrightarrow> floor_indices (Suc 0) n = replicate (nat n) 0"
  by (simp add: floor_indices_def arange_def map_replicate_const cong: if_cong)


lemma key_frames_indices_floor:
  assumes "1 \<le> length (traj_H self)" and "0 \<le> traj_n_frames self"
  shows "key_frames_indices self =
           Inr (floor_indices (length (traj_H self)) (traj_n_frames self))"
proof -
  consider "traj_n_frames self = 0" | "traj_n_frames self = 1" | "2 \<le> traj_n_frames self"
    using assms(2) by linarith
  then show ?thesis
  proof cases
    case 1
    then show ?thesis
      by (simp add: key_frames_indices_def linspace_int_none floor_indices_def arange_def)
  next
    case 2
    then show ?thesis
      by (simp add: key_frames_indices_def linspace_int_single floor_indices_single)
  next
    case 3
    have "0 \<le> int (length (traj_H self)) - 1"
      using assms(1) by linarith
    from linspace_int_from_0[OF this 3] 3 assms(1) show ?thesis
      by (simp add: key_frames_indices_def floor_indices_def arange_def of_nat_diff)
  qed
qed




section \<open>The trajectory: what \<open>add_trajectory\<close> builds\<close>




text \<open>
  Claim C5. For every pose sequence of length N >= 2, the line set that
  \<open>add_trajectory\<close> builds has the translation components of the poses as its points,
  in sequence order, and exactly N-1 segments, segment i joining point i and point
  i+1, that is the translations of pose i and pose i+1; every segment has the one
  colour of the trajectory; and this line set is the first geometry the call adds to
  the scene.
\<close>

theorem add_trajectory_polyline:
  assumes "2 \<le> length (traj_H self)"
  shows "ls_points (trajectory_line_set self) = map slice_3_3 (traj_H self) \<and>
         length (ls_lines (trajectory_line_set self)) = length (traj_H self) - 1 \<and>
         (\<forall>i < length (traj_H self) - 1.
            ls_lines (trajectory_line_set self) ! i = (int i, int i + 1) \<and>
            ls_points (trajectory_line_set self) !
              nat (fst (ls_lines (trajectory_line_set self) ! i)) = slice_3_3 (traj_H self ! i) \<and>
            ls_points (trajectory_line_set self) !
              nat (snd (ls_lines (trajectory_line_set self) ! i)) =
                slice_3_3 (traj_H self ! Suc i)) \<and>
         ls_colors (trajectory_line_set self) =
           replicate (length (traj_H self) - 1) (traj_c self) \<and>
         (\<exists>gs. snd (add_trajectory self w) =
                 w\<lparr>geometries := geometries w @ trajectory_line_set self # gs\<rparr>)"
proof -
  have "nat (int i + 1) = Suc i" for i
    by simp
  then show ?thesis
    using add_trajectory_first_geometry[of self w]
    by (simp add: trajectory_line_set_eq)
qed

theorem add_trajectory_polyline_witness:
  "2 \<le> length (traj_H trajectory3) \<and>
   ls_points (trajectory_line_set trajectory3) = [Vec3 0 0 0, Vec3 1 0 0, Vec3 2 0 0] \<and>
   length (ls_lines (trajectory_line_set trajectory3)) = 2 \<and>
   ls_colors (trajectory_line_set trajectory3) = [Vec3 1 0 0, Vec3 1 0 0]"
proof -
  have pre: "2 \<le> length (traj_H trajectory3)"
    by (simp add: trajectory3_def Trajectory_init_def)
  have poses: "traj_H trajectory3 = [pose_at 0 0 0, pose_at 1 0 0, pose_at 2 0 0]"
    "traj_c trajectory3 = Vec3 1 0 0"
    by (simp_all add: trajectory3_def Trajectory_init_def)
  from add_trajectory_polyline[OF pre, of world0] pre show ?thesis
    by (simp add: poses slice_3_3_def pose_at_def numeral_2_eq_2)
qed

text \<open>
  Claim C7, as the source has it. The trajectory builder has no check of the length of
  the pose sequence and raises no precondition error. With exactly one pose (and
  n_frames >= 0) \<open>add_trajectory\<close> returns normally, having added a line set with that
  one point and no segment, and n_frames coordinate frames at that pose. With no pose
  at all (and n_frames >= 1) it adds a line set with no point and no segment, and then
  raises \<^verbatim>\<open>IndexError\<close> at the lookup of the first key frame.
\<close>

theorem add_trajectory_short_sequence:
  "(length (traj_H self) = 1 \<and> 0 \<le> traj_n_frames self \<longrightarrow>
      add_trajectory self w =
        (Inr (),
         w\<lparr>geometries := geometries w @ LineSet [slice_3_3 (hd (traj_H self))] [] [] #
            replicate (nat (traj_n_frames self)) (key_frame_geometry self 0)\<rparr>)) \<and>
   (traj_H self = [] \<and> 1 \<le> traj_n_frames self \<longrightarrow>
      add_trajectory self w =
        (Inl IndexError, w\<lparr>geometries := geometries w @ [LineSet [] [] []]\<rparr>))"
proof (intro conjI impI)
  assume a: "length (traj_H self) = 1 \<and> 0 \<le> traj_n_frames self"
  then obtain A where H: "traj_H self = [A]"
    by (cases "traj_H self") simp_all
  have ls: "trajectory_line_set self = LineSet [slice_3_3 (hd (traj_H self))] [] []"
    by (simp add: trajectory_line_set_eq H)
  have ks: "key_frames_indices self = Inr (replicate (nat (traj_n_frames self)) 0)"
    using key_frames_indices_floor[of self] a by (simp add: floor_indices_one_pose)
  have "\<forall>k \<in> set (replicate (nat (traj_n_frames self)) (0::int)).
          0 \<le> k \<and> k < int (length (traj_H self))"
    using a by simp
  from add_key_frames_in_range[OF this, of "add_geometry w (trajectory_line_set self)"]
  show "add_trajectory self w =
        (Inr (),
         w\<lparr>geometries := geometries w @ LineSet [slice_3_3 (hd (traj_H self))] [] [] #
            replicate (nat (traj_n_frames self)) (key_frame_geometry self 0)\<rparr>)"
    by (simp add: add_trajectory_def ks add_geometry_def ls)
next
  assume a: "traj_H self = [] \<and> 1 \<le> traj_n_frames self"
  then obtain rest where ks: "key_frames_indices self = Inr (0 # rest)"
    unfolding key_frames_indices_def using linspace_int_head by blast
  have ls: "trajectory_line_set self = LineSet [] [] []"
    using a by (simp add: trajectory_line_set_eq)
  show "add_trajectory self w =
        (Inl IndexError, w\<lparr>geometries := geometries w @ [LineSet [] [] []]\<rparr>)"
    using a by (simp add: add_trajectory_def ks ls add_geometry_def getitem_def)
qed

theorem add_trajectory_short_sequence_witness:
  "length (traj_H trajectory1) = 1 \<and> 0 \<le> traj_n_frames trajectory1 \<and>
   add_trajectory trajectory1 world0 =
     (Inr (),
      world0\<lparr>geometries :=
        [LineSet [Vec3 1 2 3] [] [],
         MeshGeometry (TriangleMesh (CoordinateFrame 1) [Transform (pose_at 1 2 3)]),
         MeshGeometry (TriangleMesh (CoordinateFrame 1) [Transform (pose_at 1 2 3)])]\<rparr>) \<and>
   traj_H trajectory0 = [] \<and> 1 \<le> traj_n_frames trajectory0 \<and>
   add_trajectory trajectory0 world0 =
     (Inl IndexError, world0\<lparr>geometries := [LineSet [] [] []]\<rparr>)"
proof -
  have one: "length (traj_H trajectory1) = 1 \<and> 0 \<le> traj_n_frames trajectory1"
    by (simp add: trajectory1_def Trajectory_init_def)
  have none: "traj_H trajectory0 = [] \<and> 1 \<le> traj_n_frames trajectory0"
    by (simp add: trajectory0_def Trajectory_init_def)
  have vals: "traj_H trajectory1 = [pose_at 1 2 3]" "traj_n_frames trajectory1 = 2"
    "traj_s trajectory1 = 1"
    by (simp_all add: trajectory1_def Trajectory_init_def)
  from add_trajectory_short_sequence[of trajectory1 world0]
    add_trajectory_short_sequence[of trajectory0 world0] one none
  show ?thesis
    by (simp add: vals key_frame_geometry_def world0_def slice_3_3_def pose_at_def
        numeral_2_eq_2)
qed

text \<open>
  Claim C7 as worded fails: a sequence of one pose is accepted. \<open>add_trajectory\<close>, and
  \<open>plot_trajectory\<close> with \<open>show_direction\<close> false, return normally and leave a line
  set and two frames in the scene.
\<close>

theorem add_trajectory_short_sequence_counterexample:
  "length (traj_H trajectory1) < 2 \<and>
   fst (add_trajectory trajectory1 world0) = Inr () \<and>
   geometries (snd (add_trajectory trajectory1 world0)) =
     [LineSet [Vec3 1 2 3] [] [],
      MeshGeometry (TriangleMesh (CoordinateFrame 1) [Transform (pose_at 1 2 3)]),
      MeshGeometry (TriangleMesh (CoordinateFrame 1) [Transform (pose_at 1 2 3)])] \<and>
   plot_trajectory Inr world0 [pose_at 1 2 3] (Some False) (Some 2) None None =
     add_trajectory trajectory1 world0"
  by (simp add: trajectory1_def Trajectory_init_def add_trajectory_def trajectory_line_set_def
      hstack_columns_def arange_def key_frames_indices_def linspace_int_def astype_int_def
      getitem_def Frame_init_def add_frame_def add_geometry_def create_coordinate_frame_def
      apply_op_def world0_def slice_3_3_def pose_at_def plot_trajectory_def Let_def
      upto_rec1[of 0 1])

section \<open>\<open>plot_trajectory\<close> and the direction flag\<close>


text \<open>
  Claim C10. \<open>plot_trajectory\<close> takes \<open>show_direction\<close> to be true when the argument
  is left out, and asserts that it is false: every call that leaves it out raises
  before any geometry is built and leaves the state as it was (the assertion error,
  unless the conversion of the poses has raised before it), and a call that returns
  normally has passed \<open>show_direction = False\<close>.
\<close>

theorem plot_trajectory_default_fails:
  "plot_trajectory matrices_from_pos_quat w P None n_frames s c =
     (Inl (case matrices_from_pos_quat P of
             Inl e \<Rightarrow> e
           | Inr H \<Rightarrow> AssertionError ''not implemented yet''), w) \<and>
   (fst (plot_trajectory matrices_from_pos_quat w P show_direction n_frames s c) = Inr ()
      \<longrightarrow> show_direction = Some False)"
proof -
  have "show_direction = None \<or> show_direction = Some True \<or> show_direction = Some False"
    by (cases show_direction) auto
  then show ?thesis
    by (auto simp: plot_trajectory_def split: sum.splits)
qed

theorem plot_trajectory_default_fails_witness:
  "fst (plot_trajectory Inr world0 [pose_at 0 0 0, pose_at 1 0 0] (Some False) (Some 2)
          None None) = Inr () \<and>
   plot_trajectory Inr world0 [pose_at 0 0 0, pose_at 1 0 0] None (Some 2) None None =
     (Inl (AssertionError ''not implemented yet''), world0)"
proof -
  have ok: "fst (plot_trajectory Inr world0 [pose_at 0 0 0, pose_at 1 0 0] (Some False)
      (Some 2) None None) = Inr ()"
    by (simp add: plot_trajectory_def Trajectory_init_def add_trajectory_def
        key_frames_indices_def linspace_int_def arange_def astype_int_def getitem_def
        Frame_init_def Let_def upto_rec1[of 0 1])
  from plot_trajectory_default_fails
         [of Inr world0 "[pose_at 0 0 0, pose_at 1 0 0]" "Some 2" None None "Some False"] ok
  show ?thesis
    by simp
qed

section \<open>\<open>set_data\<close>\<close>

text \<open>
  Claim C8. For every frame and every trajectory, \<open>set_data\<close> raises
  \<^verbatim>\<open>NotImplementedError\<close>; the object (its pose data \<open>A2B\<close> or \<open>H\<close> and everything
  else it holds) and the state, with the geometry built before, are unchanged.
\<close>

theorem set_data_not_implemented:
  "Frame_set_data fr A2B label w = (Inl NotImplementedError, fr, w) \<and>
   Trajectory_set_data tr H label w = (Inl NotImplementedError, tr, w)"
  by (simp add: Frame_set_data_def Trajectory_set_data_def)

section \<open>The skipped items of a URDF transform manager\<close>

text \<open>
  Claim C9, as the source has it. A mesh with no mesh path is skipped with the printed
  message "No mesh path given": \<open>mesh_show\<close> returns normally and adds no geometry.
  A transform manager without the attribute \<open>collision_objects\<close> (or \<open>visuals\<close>) is
  skipped in silence, with no message at all: the call does what it does when the
  collision objects (or visuals) are not asked for, so the skipped branch adds no
  geometry and raises nothing, and with nothing else asked for the call returns
  normally and leaves the state as it was.
\<close>

theorem skipped_items:
  "(mesh_path m = None \<longrightarrow>
      mesh_show m w tm frame c =
        (Inr (), w\<lparr>stdout := stdout w @ [''No mesh path given'']\<rparr>)) \<and>
   (tm_collision_objects tm = None \<longrightarrow>
      show_urdf_transform_manager w tm frame True visuals frames whitelist s c =
      show_urdf_transform_manager w tm frame False visuals frames whitelist s c) \<and>
   (tm_visuals tm = None \<longrightarrow>
      show_urdf_transform_manager w tm frame collision_objects True frames whitelist s c =
      show_urdf_transform_manager w tm frame collision_objects False frames whitelist s c) \<and>
   show_urdf_transform_manager w tm frame False False False whitelist s c = (Inr (), w)"
proof (intro conjI impI)
  assume "mesh_path m = None"
  then show "mesh_show m w tm frame c =
      (Inr (), w\<lparr>stdout := stdout w @ [''No mesh path given'']\<rparr>)"
    by (simp add: mesh_show_def)
next
  assume "tm_collision_objects tm = None"
  then show "show_urdf_transform_manager w tm frame True visuals frames whitelist s c =
      show_urdf_transform_manager w tm frame False visuals frames whitelist s c"
    by (simp add: show_urdf_transform_manager_def)
next
  assume "tm_visuals tm = None"
  then show
    "show_urdf_transform_manager w tm frame collision_objects True frames whitelist s c =
     show_urdf_transform_manager w tm frame collision_objects False frames whitelist s c"
    by (simp add: show_urdf_transform_manager_def split: prod.splits sum.splits)
next
  show "show_urdf_transform_manager w tm frame False False False whitelist s c = (Inr (), w)"
    by (simp add: show_urdf_transform_manager_def)
qed

theorem skipped_items_witness:
  "mesh_path mesh_no_path = None \<and>
   mesh_show mesh_no_path world0 tm_plain ''base'' None =
     (Inr (), world0\<lparr>stdout := [''No mesh path given'']\<rparr>) \<and>
   tm_collision_objects tm_plain = None \<and> tm_visuals tm_plain = None \<and>
   show_urdf_transform_manager world0 tm_plain ''base'' True True False None 1 None =
     (Inr (), world0)"
proof -
  have pre: "mesh_path mesh_no_path = None" "tm_collision_objects tm_plain = None"
    "tm_visuals tm_plain = None"
    by (simp_all add: mesh_no_path_def tm_plain_def)
  from skipped_items[of mesh_no_path world0 tm_plain "''base''" None True False None 1 False]
    pre
  show ?thesis
    by (simp add: world0_def)
qed

text \<open>
  Claim C9 as worded fails: for a transform manager that has neither attribute, the
  call that asks for collision objects and visuals returns normally and nothing has
  been printed and no warning issued.
\<close>

theorem skipped_items_counterexample:
  "tm_collision_objects tm_plain = None \<and> tm_visuals tm_plain = None \<and>
   show_urdf_transform_manager world0 tm_plain ''base'' True True False None 1 None =
     (Inr (), world0) \<and>
   stdout world0 = [] \<and> warnings world0 = []"
  by (simp add: show_urdf_transform_manager_def tm_plain_def world0_def)

end
